theory Spec2Isabelle
  imports Main "HOL-Library.Word"
begin

unbundle bit_operations_syntax

section \<open>Intel PCH thermal sensor driver: data model\<close>

text \<open>
  The development embeds \<^verbatim>\<open>kernel/dev/thermal/intel_pch_thermal/thermal.cpp\<close>.
  Pointers are machine addresses with \<open>0\<close> as the null pointer; the driver's global
  \<^verbatim>\<open>g_pch_thermal_context\<close>, the PCI device object behind the \<^verbatim>\<open>RefPtr\<close>, the
  sensor's register block and the kernel's region list are fields of one \<open>world\<close>
  record that every operation takes and returns.
\<close>

type_synonym vaddr_t = "64 word"
type_synonym aspace_ptr = "64 word"

abbreviation NULL :: "64 word" where
  "NULL \<equiv> 0"

text \<open>\<^verbatim>\<open>status_t\<close>: the two codes the file names, and any other code a callee reports.\<close>

datatype status_t = NO_ERROR | ERR_INVALID_ARGS | ERR_OTHER nat

text \<open>
  A failed \<^verbatim>\<open>DEBUG_ASSERT\<close> halts the kernel: no status is returned and no state is left.
  The assertions are modelled as the source writes them, that is, as checked.
\<close>

datatype fault = ASSERT_FAILED

text \<open>
  What a \<^verbatim>\<open>void*\<close> driver context can point to: the address of this driver's global, or
  the context of some other driver. \<open>None\<close> is the null pointer.
\<close>

datatype ctx_ref = G_PCH_THERMAL_CONTEXT | FOREIGN_CONTEXT nat

text \<open>\<^verbatim>\<open>struct pch_thermal_context\<close>, by the three fields the file reads and writes.\<close>

record pch_thermal_context =
  device_claimed :: bool
  aspace :: aspace_ptr
  regs :: vaddr_t

text \<open>
  Modelled from the spec: \<^verbatim>\<open>struct pch_thermal_registers\<close> is declared in
  \<^verbatim>\<open>pch_thermal.h\<close>, which is not part of the sources at hand. The three fields the
  driver touches are a sensor-enable byte \<open>tsel\<close>, the catastrophic trip threshold
  \<open>ctt\<close> whose low nine bits hold the packed temperature (the driver masks it with
  \<^verbatim>\<open>0x1ff\<close>, so the register is taken to be sixteen bits wide), and the trip-action
  byte \<open>tsc\<close>.
\<close>

record pch_thermal_registers =
  tsel :: "8 word"
  ctt :: "16 word"
  tsc :: "8 word"

datatype pcie_irq_mode = PCIE_IRQ_MODE_DISABLED | PCIE_IRQ_MODE_LEGACY

text \<open>\<^verbatim>\<open>pcie_device_state_t\<close>, by the fields the driver reads, and the IRQ mode its calls set.\<close>

record pcie_device_state =
  vendor_id :: "16 word"
  device_id :: "16 word"
  driver_ctx :: "ctx_ref option"
  irq_mode :: pcie_irq_mode

text \<open>\<^verbatim>\<open>pcie_bar_info_t\<close>; its field \<^verbatim>\<open>size\<close> is named \<open>size_bar\<close> here.\<close>

record pcie_bar_info =
  bus_addr :: "64 word"
  size_bar :: "64 word"

text \<open>
  Every call that leaves the driver (bus framework, virtual memory, device register
  write) is appended to a log, so that the order of effects can be stated.
\<close>

datatype event =
    EvSetIrqModeDisabled
  | EvSetIrqModeLegacy
  | EvRegisterIrqHandler
  | EvVmmAllocPhysical aspace_ptr "64 word" "64 word"
  | EvEnableMmio
  | EvWriteTsel "8 word"
  | EvWriteCtt "16 word"
  | EvWriteTsc "8 word"
  | EvUnmaskIrq
  | EvVmmFreeRegion aspace_ptr vaddr_t

record world =
  g_pch_thermal_context :: pch_thermal_context
  pci :: pcie_device_state
  mmio :: pch_thermal_registers
  vmm_regions :: "(aspace_ptr \<times> vaddr_t) list"
  trace :: "event list"

text \<open>
  Modelled from the spec: the threshold codec \<^verbatim>\<open>decode_temp\<close>/\<^verbatim>\<open>encode_temp\<close> is defined
  in \<^verbatim>\<open>pch_thermal.h\<close>, which is not part of the sources at hand. The spec gives its
  contract and not its formula: \<open>decode\<close> takes a 9-bit unsigned raw value to signed
  degrees, \<open>encode\<close> takes signed degrees to a 9-bit unsigned raw value, and
  \<open>decode (encode d) = d\<close> for every degree value \<open>d\<close> within the representable range
  of the hardware, that is, every value some raw value decodes to. The safety ceiling of
  113 degrees, whose encoding startup stores as the threshold, is such a value. A codec
  is any pair of functions with this contract. Degrees are the \<^verbatim>\<open>int16_t\<close> the driver
  keeps them in, read as signed.
\<close>

typedef codec =
  "{(dec :: 9 word \<Rightarrow> 16 word, enc :: 16 word \<Rightarrow> 9 word).
      (\<forall>d \<in> range dec. dec (enc d) = d) \<and> 113 \<in> range dec}"
proof
  show "(\<lambda>r. ucast r, \<lambda>d. ucast d) \<in>
    {(dec :: 9 word \<Rightarrow> 16 word, enc :: 16 word \<Rightarrow> 9 word).
      (\<forall>d \<in> range dec. dec (enc d) = d) \<and> 113 \<in> range dec}"
  proof -
    have "(113 :: 16 word) = ucast (113 :: 9 word)"
      by simp
    then have "(113 :: 16 word) \<in> range (\<lambda>r :: 9 word. ucast r)"
      by (rule range_eqI)
    moreover have "n < 9" if "bit r n" for r :: "9 word" and n
      using bit_imp_le_length [OF that] by simp
    then have "(ucast (ucast (ucast r :: 16 word) :: 9 word) :: 16 word) = ucast r"
      for r :: "9 word"
      by (auto intro!: bit_word_eqI simp add: bit_simps)
    ultimately show ?thesis by auto
  qed
qed

definition decode_temp :: "codec \<Rightarrow> 9 word \<Rightarrow> 16 word" where
  "decode_temp c = fst (Rep_codec c)"

definition encode_temp :: "codec \<Rightarrow> 16 word \<Rightarrow> 9 word" where
  "encode_temp c = snd (Rep_codec c)"

text \<open>
  The answers of the collaborators during one call of startup, and what comes from
  headers outside the sources at hand: the page size, the largest \<^verbatim>\<open>paddr_t\<close> and
  \<^verbatim>\<open>size_t\<close>, which are parameters, and the threshold codec.
\<close>

record env =
  kernel_aspace :: aspace_ptr
  bar0 :: "pcie_bar_info option"
  set_irq_mode_status :: status_t
  register_irq_handler_status :: status_t
  alloc_physical_status :: status_t
  alloc_physical_vaddr :: vaddr_t
  unmask_irq_status :: status_t
  PAGE_SIZE :: "64 word"
  paddr_max :: "64 word"
  size_max :: "64 word"
  codec :: codec

section \<open>Vendor and device ids\<close>

definition INTEL_VID :: "16 word" where
  "INTEL_VID = 0x8086"

definition intel_dids :: "16 word list" where
  "intel_dids = [0x3a32, 0x9ca4]"

section \<open>Probe\<close>

text \<open>
  The loop of \<^verbatim>\<open>pch_thermal_probe\<close> over \<^verbatim>\<open>intel_dids\<close>: it sets \<^verbatim>\<open>claim\<close> and breaks
  at the first entry equal to the device id.
\<close>

primrec did_loop :: "16 word \<Rightarrow> 16 word list \<Rightarrow> bool" where
  "did_loop d [] = False"
| "did_loop d (x # xs) = (if d = x then True else did_loop d xs)"

definition pch_thermal_probe :: "pcie_device_state \<Rightarrow> world \<Rightarrow> ctx_ref option \<times> world" where
  "pch_thermal_probe pci_device w =
     (if device_claimed (g_pch_thermal_context w) then (None, w)
      else
        let claim = (if vendor_id pci_device = INTEL_VID
                     then did_loop (device_id pci_device) intel_dids else False)
        in if \<not> claim then (None, w)
           else (Some G_PCH_THERMAL_CONTEXT,
                 w\<lparr>g_pch_thermal_context :=
                      (g_pch_thermal_context w)\<lparr>device_claimed := True\<rparr>\<rparr>))"

section \<open>Collaborators\<close>

text \<open>
  Modelled from the spec: the macro \<^verbatim>\<open>ROUNDUP\<close> comes from a header outside the sources
  at hand. It rounds the region size up to the page granularity; the granularity is a
  power of two and the arithmetic is that of \<^verbatim>\<open>uint64_t\<close>.
\<close>

definition ROUNDUP :: "64 word \<Rightarrow> 64 word \<Rightarrow> 64 word" where
  "ROUNDUP a b = (a + (b - 1)) AND NOT (b - 1)"

text \<open>Every call that leaves the driver appends its event to the log.\<close>

definition log_event :: "event \<Rightarrow> world \<Rightarrow> world" where
  "log_event e w = w\<lparr>trace := trace w @ [e]\<rparr>"

text \<open>
  Modelled from the spec: the calls into the bus framework (\<^verbatim>\<open>dev/pcie.h\<close>) are
  implemented outside the sources at hand. A call that reports a status takes it from
  the environment. Disabling the IRQ mode, and a successful request for legacy mode,
  change the mode of the device; the other calls are only logged.
\<close>

definition pcie_set_irq_mode_disabled :: "world \<Rightarrow> world" where
  "pcie_set_irq_mode_disabled w =
     log_event EvSetIrqModeDisabled (w\<lparr>pci := (pci w)\<lparr>irq_mode := PCIE_IRQ_MODE_DISABLED\<rparr>\<rparr>)"

definition pcie_set_irq_mode :: "env \<Rightarrow> world \<Rightarrow> status_t \<times> world" where
  "pcie_set_irq_mode E w =
     (set_irq_mode_status E,
      log_event EvSetIrqModeLegacy
        (if set_irq_mode_status E = NO_ERROR
         then w\<lparr>pci := (pci w)\<lparr>irq_mode := PCIE_IRQ_MODE_LEGACY\<rparr>\<rparr> else w))"

definition pcie_register_irq_handler :: "env \<Rightarrow> world \<Rightarrow> status_t \<times> world" where
  "pcie_register_irq_handler E w =
     (register_irq_handler_status E, log_event EvRegisterIrqHandler w)"

text \<open>
  Modelled from the spec: the virtual-memory subsystem is implemented outside the
  sources at hand. A successful physical mapping stores the address it chose through
  the out-parameter and adds the region to the list of live regions; a failed one
  leaves the out-parameter as it was, null. Freeing a region removes it from the list;
  its status is ignored by the driver.
\<close>

definition vmm_alloc_physical ::
  "env \<Rightarrow> aspace_ptr \<Rightarrow> 64 word \<Rightarrow> 64 word \<Rightarrow> world \<Rightarrow> (status_t \<times> vaddr_t) \<times> world" where
  "vmm_alloc_physical E asp sz paddr w =
     (if alloc_physical_status E = NO_ERROR
      then ((NO_ERROR, alloc_physical_vaddr E),
            log_event (EvVmmAllocPhysical asp sz paddr)
              (w\<lparr>vmm_regions := vmm_regions w @ [(asp, alloc_physical_vaddr E)]\<rparr>))
      else ((alloc_physical_status E, NULL),
            log_event (EvVmmAllocPhysical asp sz paddr) w))"

definition vmm_free_region :: "aspace_ptr \<Rightarrow> vaddr_t \<Rightarrow> world \<Rightarrow> world" where
  "vmm_free_region asp va w =
     log_event (EvVmmFreeRegion asp va)
       (w\<lparr>vmm_regions := removeAll (asp, va) (vmm_regions w)\<rparr>)"

text \<open>
  Modelled from the spec: two more calls into the bus framework. Enabling MMIO decoding
  returns nothing; unmasking the IRQ reports the status the environment gives.
\<close>

definition pcie_enable_mmio :: "world \<Rightarrow> world" where
  "pcie_enable_mmio w = log_event EvEnableMmio w"

definition pcie_unmask_irq :: "env \<Rightarrow> world \<Rightarrow> status_t \<times> world" where
  "pcie_unmask_irq E w = (unmask_irq_status E, log_event EvUnmaskIrq w)"

text \<open>Stores through \<^verbatim>\<open>ctx->regs\<close>: the device's register changes and the write is logged.\<close>

definition write_tsel :: "8 word \<Rightarrow> world \<Rightarrow> world" where
  "write_tsel v w = log_event (EvWriteTsel v) (w\<lparr>mmio := (mmio w)\<lparr>tsel := v\<rparr>\<rparr>)"

definition write_ctt :: "16 word \<Rightarrow> world \<Rightarrow> world" where
  "write_ctt v w = log_event (EvWriteCtt v) (w\<lparr>mmio := (mmio w)\<lparr>ctt := v\<rparr>\<rparr>)"

definition write_tsc :: "8 word \<Rightarrow> world \<Rightarrow> world" where
  "write_tsc v w = log_event (EvWriteTsc v) (w\<lparr>mmio := (mmio w)\<lparr>tsc := v\<rparr>\<rparr>)"

section \<open>Teardown\<close>

text \<open>
  \<^verbatim>\<open>pch_thermal_cleanup\<close>. The flag \<open>pci_device\<close> says whether the \<^verbatim>\<open>RefPtr\<close> is
  non-null. The function is \<^verbatim>\<open>void\<close> and asserts nothing, so it has no fault branch.
\<close>

definition pch_thermal_cleanup :: "bool \<Rightarrow> world \<Rightarrow> world" where
  "pch_thermal_cleanup pci_device w0 =
     (let w1 = (if pci_device then pcie_set_irq_mode_disabled w0 else w0);
          ctx = g_pch_thermal_context w1;
          w2 = (if regs ctx \<noteq> NULL
                then vmm_free_region (aspace ctx) (regs ctx)
                       (write_tsel (tsel (mmio w1) AND NOT 1) w1)
                else w1)
      in w2\<lparr>g_pch_thermal_context :=
              (g_pch_thermal_context w2)\<lparr>aspace := NULL, regs := NULL\<rparr>\<rparr>)"

section \<open>Startup\<close>

text \<open>
  Lines 133 to 140: the catastrophic trip threshold is read, decoded and clamped. The
  low nine bits of the register go to the codec as its 9-bit raw value, and the 9-bit
  raw value it returns is stored in the sixteen-bit register.
\<close>

definition set_ctt_threshold :: "env \<Rightarrow> world \<Rightarrow> world" where
  "set_ctt_threshold E w =
     (let current_ctt = decode_temp (codec E) (ucast (ctt (mmio w) AND 0x1ff))
      in if 113 \<le>s current_ctt then write_ctt (ucast (encode_temp (codec E) 113)) w else w)"

text \<open>
  Lines 75 to 128: the assertions, the address space, the BAR, the IRQ mode and handler,
  the range check, the mapping, MMIO decoding, and the store of the mapped pointer. A
  status other than \<^verbatim>\<open>NO_ERROR\<close> is a jump to \<^verbatim>\<open>finished\<close>.
\<close>

definition startup_acquire :: "env \<Rightarrow> world \<Rightarrow> fault + (status_t \<times> world)" where
  "startup_acquire E w0 =
     (if regs (g_pch_thermal_context w0) \<noteq> NULL then Inl ASSERT_FAILED
      else if driver_ctx (pci w0) \<noteq> Some G_PCH_THERMAL_CONTEXT then Inl ASSERT_FAILED
      else
        let w1 = w0\<lparr>g_pch_thermal_context :=
                     (g_pch_thermal_context w0)\<lparr>aspace := kernel_aspace E\<rparr>\<rparr>
        in case bar0 E of
             None \<Rightarrow> Inl ASSERT_FAILED
           | Some bar_info \<Rightarrow>
               if bus_addr bar_info = 0 then Inl ASSERT_FAILED
               else
                 let (status, w2) = pcie_set_irq_mode E w1 in
                 if status \<noteq> NO_ERROR then Inr (status, w2)
                 else
                   let (status, w3) = pcie_register_irq_handler E w2 in
                   if status \<noteq> NO_ERROR then Inr (status, w3)
                   else
                     let sz = ROUNDUP (size_bar bar_info) (PAGE_SIZE E) in
                     if bus_addr bar_info > paddr_max E \<or> sz > size_max E
                     then Inr (ERR_INVALID_ARGS, w3)
                     else
                       let ((status, vaddr), w4) =
                             vmm_alloc_physical E (aspace (g_pch_thermal_context w3)) sz
                               (bus_addr bar_info) w3
                       in if status \<noteq> NO_ERROR then Inr (status, w4)
                          else if vaddr = NULL then Inl ASSERT_FAILED
                          else
                            let w5 = pcie_enable_mmio w4
                            in Inr (NO_ERROR,
                                    w5\<lparr>g_pch_thermal_context :=
                                         (g_pch_thermal_context w5)\<lparr>regs := vaddr\<rparr>\<rparr>))"

text \<open>Lines 130 to 143: sensor enable, threshold clamp, power-off on catastrophic trip.\<close>

definition startup_configure :: "env \<Rightarrow> world \<Rightarrow> world" where
  "startup_configure E w =
     (let w1 = write_tsel (tsel (mmio w) OR 1) w;
          w2 = set_ctt_threshold E w1
      in write_tsc (tsc (mmio w2) OR 1) w2)"

text \<open>The function up to the label \<^verbatim>\<open>finished\<close>.\<close>

definition startup_body :: "env \<Rightarrow> world \<Rightarrow> fault + (status_t \<times> world)" where
  "startup_body E w =
     (case startup_acquire E w of
        Inl f \<Rightarrow> Inl f
      | Inr (status, w1) \<Rightarrow>
          if status \<noteq> NO_ERROR then Inr (status, w1)
          else Inr (pcie_unmask_irq E (startup_configure E w1)))"

text \<open>\<^verbatim>\<open>pch_thermal_startup\<close>: at \<^verbatim>\<open>finished\<close>, a failure runs the cleanup, then the status is returned.\<close>

definition pch_thermal_startup :: "env \<Rightarrow> world \<Rightarrow> fault + (status_t \<times> world)" where
  "pch_thermal_startup E w =
     (case startup_body E w of
        Inl f \<Rightarrow> Inl f
      | Inr (status, w1) \<Rightarrow>
          Inr (status, if status \<noteq> NO_ERROR then pch_thermal_cleanup True w1 else w1))"

section \<open>Shutdown and release\<close>

definition pch_thermal_shutdown :: "world \<Rightarrow> fault + world" where
  "pch_thermal_shutdown w =
     (if driver_ctx (pci w) \<noteq> Some G_PCH_THERMAL_CONTEXT then Inl ASSERT_FAILED
      else Inr (pch_thermal_cleanup True w))"

definition pch_thermal_release :: "ctx_ref option \<Rightarrow> world \<Rightarrow> fault + world" where
  "pch_thermal_release ctx w =
     (if ctx \<noteq> Some G_PCH_THERMAL_CONTEXT then Inl ASSERT_FAILED
      else if regs (g_pch_thermal_context w) \<noteq> NULL then Inl ASSERT_FAILED
      else Inr (w\<lparr>g_pch_thermal_context :=
                    (g_pch_thermal_context w)\<lparr>device_claimed := False\<rparr>\<rparr>))"

section \<open>The initial state and sample inputs\<close>

text \<open>The global context as the kernel image holds it at boot: zero-initialised.\<close>

definition initial_context :: pch_thermal_context where
  "initial_context = \<lparr>device_claimed = False, aspace = NULL, regs = NULL\<rparr>"

text \<open>Bit 0 of \<open>tsel\<close> is the sensor-enable bit.\<close>

definition sensor_enabled :: "pch_thermal_registers \<Rightarrow> bool" where
  "sensor_enabled r = (tsel r AND 1 = 1)"

text \<open>
  Concrete inputs for the instances below: a supported device, a fresh world whose
  threshold register reads \<^verbatim>\<open>0x154\<close>, a world whose threshold is lower, and an
  environment in which every collaborator succeeds. The codec of the sample environment
  counts half degrees above an offset of fifty; it is one codec with the contract, used
  only in these instances.
\<close>

definition sample_codec :: codec where
  "sample_codec =
     Abs_codec (\<lambda>r. ucast (drop_bit 1 r) - 50, \<lambda>d. ucast (push_bit 1 (d + 50)))"

definition sample_device :: pcie_device_state where
  "sample_device = \<lparr>vendor_id = 0x8086, device_id = 0x9ca4, driver_ctx = None,
                     irq_mode = PCIE_IRQ_MODE_DISABLED\<rparr>"

definition fresh_world :: world where
  "fresh_world = \<lparr>g_pch_thermal_context = initial_context, pci = sample_device,
      mmio = \<lparr>tsel = 0, ctt = 0x154, tsc = 0\<rparr>, vmm_regions = [], trace = []\<rparr>"

definition cool_world :: world where
  "cool_world = fresh_world\<lparr>mmio := \<lparr>tsel = 1, ctt = 0x10e, tsc = 0\<rparr>\<rparr>"

definition sample_env :: env where
  "sample_env = \<lparr>kernel_aspace = 0x1000,
      bar0 = Some \<lparr>bus_addr = 0xfed08000, size_bar = 0x100\<rparr>,
      set_irq_mode_status = NO_ERROR, register_irq_handler_status = NO_ERROR,
      alloc_physical_status = NO_ERROR, alloc_physical_vaddr = 0x200000,
      unmask_irq_status = NO_ERROR,
      PAGE_SIZE = 0x1000, paddr_max = 0xffffffffffffffff, size_max = 0xffffffffffffffff,
      codec = sample_codec\<rparr>"

section \<open>Invariant I1 and the reachable states\<close>

text \<open>
  The region list holds the live mappings of the sensor's register window, so the
  window is mapped when the list is not empty.
\<close>

definition window_mapped :: "world \<Rightarrow> bool" where
  "window_mapped w = (vmm_regions w \<noteq> [])"

text \<open>
  The context agrees with the rest of the world: with a null \<open>regs\<close> nothing is mapped;
  otherwise the one live region is the one the context points to, and the sensor is
  enabled.
\<close>

definition ctx_consistent :: "world \<Rightarrow> bool" where
  "ctx_consistent w =
     (if regs (g_pch_thermal_context w) = NULL then vmm_regions w = []
      else vmm_regions w = [(aspace (g_pch_thermal_context w), regs (g_pch_thermal_context w))]
           \<and> sensor_enabled (mmio w))"

text \<open>
  The states between operations: the state at boot, and every state one of the four
  entry points returns from such a state, whatever the collaborators answer. Between
  the calls the bus framework may change the device object as it likes.
\<close>

inductive reachable :: "world \<Rightarrow> bool" where
  boot: "g_pch_thermal_context w = initial_context \<Longrightarrow> vmm_regions w = [] \<Longrightarrow> reachable w"
| probe: "reachable w \<Longrightarrow> reachable (snd (pch_thermal_probe d w))"
| framework: "reachable w \<Longrightarrow> reachable (w\<lparr>pci := p\<rparr>)"
| startup: "reachable w \<Longrightarrow> pch_thermal_startup E w = Inr (status, w') \<Longrightarrow> reachable w'"
| shutdown: "reachable w \<Longrightarrow> pch_thermal_shutdown w = Inr w' \<Longrightarrow> reachable w'"
| release: "reachable w \<Longrightarrow> pch_thermal_release c w = Inr w' \<Longrightarrow> reachable w'"

section \<open>Which step of startup fails\<close>

text \<open>
  The assertions of startup as a condition on its inputs: \<open>regs\<close> is null, the device is
  bound to this driver, the first BAR exists with a non-zero bus address, and a
  successful mapping returns a non-null address.
\<close>

definition asserts_hold :: "env \<Rightarrow> world \<Rightarrow> bool" where
  "asserts_hold E w =
     (regs (g_pch_thermal_context w) = NULL \<and>
      driver_ctx (pci w) = Some G_PCH_THERMAL_CONTEXT \<and>
      (case bar0 E of None \<Rightarrow> False | Some bar_info \<Rightarrow> bus_addr bar_info \<noteq> 0) \<and>
      (alloc_physical_status E \<noteq> NO_ERROR \<or> alloc_physical_vaddr E \<noteq> NULL))"

text \<open>
  The status of the first step that reports a failure, in the order of the source: IRQ
  mode, IRQ handler, address range, mapping, IRQ unmask. \<open>None\<close> when no step fails.
\<close>

definition failing_step :: "env \<Rightarrow> status_t option" where
  "failing_step E =
     (if set_irq_mode_status E \<noteq> NO_ERROR then Some (set_irq_mode_status E)
      else if register_irq_handler_status E \<noteq> NO_ERROR then Some (register_irq_handler_status E)
      else if (case bar0 E of None \<Rightarrow> False
               | Some bar_info \<Rightarrow>
                   bus_addr bar_info > paddr_max E \<or>
                   ROUNDUP (size_bar bar_info) (PAGE_SIZE E) > size_max E)
           then Some ERR_INVALID_ARGS
      else if alloc_physical_status E \<noteq> NO_ERROR then Some (alloc_physical_status E)
      else if unmask_irq_status E \<noteq> NO_ERROR then Some (unmask_irq_status E)
      else None)"

section \<open>Sample runs\<close>

text \<open>
  The fresh world after a granted probe, with the device bound to the driver; the world
  inside startup right after the mapped pointer is stored; the world after a successful
  startup; an environment whose mapping request fails, and the world startup leaves
  then; an environment without a first BAR; one whose first BAR has size zero while
  every collaborator succeeds, and the world startup leaves then.
\<close>

definition claimed_world :: world where
  "claimed_world =
     \<lparr>g_pch_thermal_context = \<lparr>device_claimed = True, aspace = NULL, regs = NULL\<rparr>,
      pci = \<lparr>vendor_id = 0x8086, device_id = 0x9ca4,
              driver_ctx = Some G_PCH_THERMAL_CONTEXT, irq_mode = PCIE_IRQ_MODE_DISABLED\<rparr>,
      mmio = \<lparr>tsel = 0, ctt = 0x154, tsc = 0\<rparr>, vmm_regions = [], trace = []\<rparr>"

definition acquired_world :: world where
  "acquired_world =
     \<lparr>g_pch_thermal_context = \<lparr>device_claimed = True, aspace = 0x1000, regs = 0x200000\<rparr>,
      pci = \<lparr>vendor_id = 0x8086, device_id = 0x9ca4,
              driver_ctx = Some G_PCH_THERMAL_CONTEXT, irq_mode = PCIE_IRQ_MODE_LEGACY\<rparr>,
      mmio = \<lparr>tsel = 0, ctt = 0x154, tsc = 0\<rparr>,
      vmm_regions = [(0x1000, 0x200000)],
      trace = [EvSetIrqModeLegacy, EvRegisterIrqHandler,
               EvVmmAllocPhysical 0x1000 0x1000 0xfed08000, EvEnableMmio]\<rparr>"

definition started_world :: world where
  "started_world =
     \<lparr>g_pch_thermal_context = \<lparr>device_claimed = True, aspace = 0x1000, regs = 0x200000\<rparr>,
      pci = \<lparr>vendor_id = 0x8086, device_id = 0x9ca4,
              driver_ctx = Some G_PCH_THERMAL_CONTEXT, irq_mode = PCIE_IRQ_MODE_LEGACY\<rparr>,
      mmio = \<lparr>tsel = 1, ctt = 0x146, tsc = 1\<rparr>,
      vmm_regions = [(0x1000, 0x200000)],
      trace = [EvSetIrqModeLegacy, EvRegisterIrqHandler,
               EvVmmAllocPhysical 0x1000 0x1000 0xfed08000, EvEnableMmio,
               EvWriteTsel 1, EvWriteCtt 0x146, EvWriteTsc 1, EvUnmaskIrq]\<rparr>"

definition mapping_fails_env :: env where
  "mapping_fails_env = sample_env\<lparr>alloc_physical_status := ERR_OTHER 5\<rparr>"

definition unwound_world :: world where
  "unwound_world =
     \<lparr>g_pch_thermal_context = \<lparr>device_claimed = True, aspace = NULL, regs = NULL\<rparr>,
      pci = \<lparr>vendor_id = 0x8086, device_id = 0x9ca4,
              driver_ctx = Some G_PCH_THERMAL_CONTEXT, irq_mode = PCIE_IRQ_MODE_DISABLED\<rparr>,
      mmio = \<lparr>tsel = 0, ctt = 0x154, tsc = 0\<rparr>, vmm_regions = [],
      trace = [EvSetIrqModeLegacy, EvRegisterIrqHandler,
               EvVmmAllocPhysical 0x1000 0x1000 0xfed08000, EvSetIrqModeDisabled]\<rparr>"

definition no_bar_env :: env where
  "no_bar_env = sample_env\<lparr>bar0 := None\<rparr>"

definition zero_size_env :: env where
  "zero_size_env = sample_env\<lparr>bar0 := Some \<lparr>bus_addr = 0xfed08000, size_bar = 0\<rparr>\<rparr>"

definition zero_size_started_world :: world where
  "zero_size_started_world =
     started_world\<lparr>trace := [EvSetIrqModeLegacy, EvRegisterIrqHandler,
               EvVmmAllocPhysical 0x1000 0 0xfed08000, EvEnableMmio,
               EvWriteTsel 1, EvWriteCtt 0x146, EvWriteTsc 1, EvUnmaskIrq]\<rparr>"

section \<open>Unfolding the collaborators\<close>

lemmas collaborator_defs =
  log_event_def pcie_set_irq_mode_disabled_def pcie_set_irq_mode_def
  pcie_register_irq_handler_def vmm_alloc_physical_def vmm_free_region_def
  pcie_enable_mmio_def pcie_unmask_irq_def write_tsel_def write_ctt_def write_tsc_def

section \<open>The codec\<close>

lemma codec_round_trip_113: "decode_temp c (encode_temp c 113) = 113"
proof -
  obtain dec enc where c: "Rep_codec c = (dec, enc)" by (cases "Rep_codec c")
  from Rep_codec [of c] c have "\<forall>d \<in> range dec. dec (enc d) = d" and "113 \<in> range dec"
    by auto
  then have "dec (enc 113) = 113" by blast
  then show ?thesis by (simp add: decode_temp_def encode_temp_def c)
qed

lemma field_mask: "(ucast ((ucast (x :: 9 word) :: 16 word) AND mask 9) :: 9 word) = x"
  by (rule bit_word_eqI) (auto simp add: bit_simps)

lemma field_roundtrip: "(ucast ((ucast (x :: 9 word) :: 16 word) AND 0x1ff) :: 9 word) = x"
  using field_mask [of x] by (simp add: mask_eq_exp_minus_1)

lemma bit_times_2: "bit (x * 2 :: 16 word) n = (n \<noteq> 0 \<and> n < 16 \<and> bit x (n - 1))"
  using bit_double_iff [of x n] by (auto simp add: mult.commute bit_simps)

lemma half_round:
  "(ucast (drop_bit 1 (ucast (push_bit 1 (ucast (drop_bit 1 r) :: 16 word)) :: 9 word)) :: 16 word)
     = ucast (drop_bit 1 (r :: 9 word))"
  by (rule bit_word_eqI) (auto simp add: bit_simps bit_times_2 dest: bit_imp_le_length)

lemma half_round_times:
  "(ucast (drop_bit (Suc 0) (ucast (ucast (drop_bit (Suc 0) r) * (2 :: 16 word)) :: 9 word)) :: 16 word)
     = ucast (drop_bit (Suc 0) (r :: 9 word))"
  using half_round [of r] by simp

lemma sample_codec_rep:
  "Rep_codec sample_codec =
     (\<lambda>r. ucast (drop_bit 1 r) - 50, \<lambda>d. ucast (push_bit 1 (d + 50)))"
proof -
  have "(113 :: 16 word) = ucast (drop_bit 1 (326 :: 9 word)) - 50"
    by simp
  then have "(113 :: 16 word) \<in> range (\<lambda>r :: 9 word. ucast (drop_bit 1 r) - 50)"
    by (rule range_eqI)
  then have "(\<lambda>r. ucast (drop_bit 1 r) - 50, \<lambda>d. ucast (push_bit 1 (d + 50))) \<in>
    {(dec :: 9 word \<Rightarrow> 16 word, enc :: 16 word \<Rightarrow> 9 word).
      (\<forall>d \<in> range dec. dec (enc d) = d) \<and> 113 \<in> range dec}"
    by (auto simp add: half_round_times)
  then show ?thesis
    unfolding sample_codec_def by (rule Abs_codec_inverse)
qed

lemma decode_sample: "decode_temp sample_codec r = ucast (drop_bit 1 r) - 50"
  by (simp add: decode_temp_def sample_codec_rep)

lemma encode_sample: "encode_temp sample_codec d = ucast (push_bit 1 (d + 50))"
  by (simp add: encode_temp_def sample_codec_rep)

section \<open>Evaluation of the samples\<close>

lemma claimed_world_eq:
  "(snd (pch_thermal_probe sample_device fresh_world))
      \<lparr>pci := sample_device\<lparr>driver_ctx := Some G_PCH_THERMAL_CONTEXT\<rparr>\<rparr> = claimed_world"
  by (simp add: pch_thermal_probe_def sample_device_def fresh_world_def
      initial_context_def claimed_world_def INTEL_VID_def intel_dids_def)

lemma acquire_sample:
  "startup_acquire sample_env claimed_world = Inr (NO_ERROR, acquired_world)"
  by (simp add: startup_acquire_def sample_env_def claimed_world_def acquired_world_def
      ROUNDUP_def collaborator_defs)

lemma configure_sample:
  "pcie_unmask_irq sample_env (startup_configure sample_env acquired_world)
     = (NO_ERROR, started_world)"
  by (simp add: startup_configure_def set_ctt_threshold_def sample_env_def acquired_world_def
      started_world_def decode_sample encode_sample collaborator_defs)

lemma startup_sample:
  "pch_thermal_startup sample_env claimed_world = Inr (NO_ERROR, started_world)"
  by (simp add: pch_thermal_startup_def startup_body_def acquire_sample configure_sample)

lemma startup_mapping_fails:
  "pch_thermal_startup mapping_fails_env claimed_world = Inr (ERR_OTHER 5, unwound_world)"
  by (simp add: pch_thermal_startup_def startup_body_def startup_acquire_def
      pch_thermal_cleanup_def mapping_fails_env_def sample_env_def claimed_world_def
      unwound_world_def ROUNDUP_def collaborator_defs)

lemma startup_zero_size:
  "pch_thermal_startup zero_size_env claimed_world = Inr (NO_ERROR, zero_size_started_world)"
  by (simp add: pch_thermal_startup_def startup_body_def startup_acquire_def
      startup_configure_def set_ctt_threshold_def zero_size_env_def sample_env_def
      claimed_world_def zero_size_started_world_def started_world_def ROUNDUP_def
      decode_sample encode_sample collaborator_defs)

section \<open>Probe: who is granted the claim\<close>

lemma did_loop_set: "did_loop d xs = (d \<in> set xs)"
  by (induction xs) auto

text \<open>
  C3. Probe grants the claim exactly when the singleton is unclaimed, the vendor id is
  \<^verbatim>\<open>0x8086\<close> and the device id is in the allow-list; it then returns the handle and
  sets \<open>device_claimed\<close>, changing nothing else. In every other case it returns the
  null pointer and the whole state is as before.
\<close>

theorem probe_postcondition:
  "pch_thermal_probe d w =
     (if \<not> device_claimed (g_pch_thermal_context w) \<and> vendor_id d = 0x8086
         \<and> device_id d \<in> set intel_dids
      then (Some G_PCH_THERMAL_CONTEXT,
            w\<lparr>g_pch_thermal_context := (g_pch_thermal_context w)\<lparr>device_claimed := True\<rparr>\<rparr>)
      else (None, w))"
  by (simp add: pch_thermal_probe_def did_loop_set INTEL_VID_def)

theorem probe_postcondition_witness:
  "pch_thermal_probe sample_device fresh_world =
     (Some G_PCH_THERMAL_CONTEXT,
      fresh_world\<lparr>g_pch_thermal_context := initial_context\<lparr>device_claimed := True\<rparr>\<rparr>) \<and>
   pch_thermal_probe sample_device claimed_world = (None, claimed_world) \<and>
   pch_thermal_probe (sample_device\<lparr>device_id := 0x1234\<rparr>) fresh_world = (None, fresh_world) \<and>
   pch_thermal_probe (sample_device\<lparr>vendor_id := 0x1022\<rparr>) fresh_world = (None, fresh_world)"
  using probe_postcondition [of sample_device fresh_world]
    probe_postcondition [of sample_device claimed_world]
    probe_postcondition [of "sample_device\<lparr>device_id := 0x1234\<rparr>" fresh_world]
    probe_postcondition [of "sample_device\<lparr>vendor_id := 0x1022\<rparr>" fresh_world]
  by (simp add: sample_device_def fresh_world_def claimed_world_def initial_context_def
      intel_dids_def)

text \<open>
  C10. The allow-list is exactly the two ids \<^verbatim>\<open>0x3a32\<close> and \<^verbatim>\<open>0x9ca4\<close>; an unclaimed
  singleton grants the claim to vendor \<^verbatim>\<open>0x8086\<close>, device \<^verbatim>\<open>0x9ca4\<close>; and a probe
  that returns a handle returns the address of the one global context, for a device of
  that vendor with one of the two ids. A handle is returned exactly to an unclaimed
  singleton probed with that vendor and one of the two ids.
\<close>

theorem allow_list_and_handle:
  "set intel_dids = {0x3a32, 0x9ca4} \<and>
   (\<not> device_claimed (g_pch_thermal_context w) \<longrightarrow> vendor_id d = 0x8086 \<longrightarrow>
      device_id d = 0x9ca4 \<longrightarrow>
        fst (pch_thermal_probe d w) = Some G_PCH_THERMAL_CONTEXT \<and>
        device_claimed (g_pch_thermal_context (snd (pch_thermal_probe d w)))) \<and>
   (fst (pch_thermal_probe d w) \<noteq> None \<longrightarrow>
      fst (pch_thermal_probe d w) = Some G_PCH_THERMAL_CONTEXT \<and>
      vendor_id d = 0x8086 \<and> (device_id d = 0x3a32 \<or> device_id d = 0x9ca4)) \<and>
   (fst (pch_thermal_probe d w) \<noteq> None) =
     (\<not> device_claimed (g_pch_thermal_context w) \<and> vendor_id d = 0x8086 \<and>
      (device_id d = 0x3a32 \<or> device_id d = 0x9ca4))"
  by (auto simp add: pch_thermal_probe_def did_loop_set INTEL_VID_def intel_dids_def)

theorem allow_list_and_handle_witness:
  "\<not> device_claimed (g_pch_thermal_context fresh_world) \<and>
   vendor_id sample_device = 0x8086 \<and> device_id sample_device = 0x9ca4 \<and>
   fst (pch_thermal_probe sample_device fresh_world) = Some G_PCH_THERMAL_CONTEXT \<and>
   fst (pch_thermal_probe sample_device fresh_world) \<noteq> None \<and>
   device_claimed (g_pch_thermal_context (snd (pch_thermal_probe sample_device fresh_world)))"
proof -
  have a: "\<not> device_claimed (g_pch_thermal_context fresh_world)"
    by (simp add: fresh_world_def initial_context_def)
  have b: "vendor_id sample_device = 0x8086" and c: "device_id sample_device = 0x9ca4"
    by (simp_all add: sample_device_def)
  from allow_list_and_handle [of fresh_world sample_device] a b c show ?thesis
    by blast
qed

section \<open>Startup: the threshold clamp\<close>

lemma set_ctt_threshold_hot:
  "113 \<le>s decode_temp (codec E) (ucast (ctt (mmio w) AND 0x1ff)) \<Longrightarrow>
     set_ctt_threshold E w = write_ctt (ucast (encode_temp (codec E) 113)) w"
  by (simp add: set_ctt_threshold_def)

lemma set_ctt_threshold_cool:
  "decode_temp (codec E) (ucast (ctt (mmio w) AND 0x1ff)) <s 113 \<Longrightarrow>
     set_ctt_threshold E w = w"
  by (simp add: set_ctt_threshold_def word_sless_alt word_sle_eq)

lemma ctt_write_ctt: "ctt (mmio (write_ctt v w)) = v"
  by (simp add: write_ctt_def log_event_def)

text \<open>
  C1. The clamp of startup's threshold step. When the stored field, the low nine bits of
  \<open>ctt\<close>, decodes to 113 degrees or more, the step overwrites the register with
  \<open>encode_temp 113\<close>: the field after the step is exactly that value and decodes to
  exactly 113. When the field decodes to less than 113, the step changes nothing.
\<close>

theorem ctt_clamp_law:
  "(113 \<le>s decode_temp (codec E) (ucast (ctt (mmio w) AND 0x1ff)) \<longrightarrow>
      ctt (mmio (set_ctt_threshold E w)) = ucast (encode_temp (codec E) 113) \<and>
      ucast (ctt (mmio (set_ctt_threshold E w)) AND 0x1ff) = encode_temp (codec E) 113 \<and>
      decode_temp (codec E) (ucast (ctt (mmio (set_ctt_threshold E w)) AND 0x1ff)) = 113) \<and>
   (decode_temp (codec E) (ucast (ctt (mmio w) AND 0x1ff)) <s 113 \<longrightarrow>
      set_ctt_threshold E w = w)"
  by (simp add: set_ctt_threshold_hot set_ctt_threshold_cool ctt_write_ctt field_roundtrip
      codec_round_trip_113)

theorem ctt_clamp_law_witness:
  "113 \<le>s decode_temp (codec sample_env) (ucast (ctt (mmio fresh_world) AND 0x1ff)) \<and>
   ctt (mmio fresh_world) = 0x154 \<and>
   ctt (mmio (set_ctt_threshold sample_env fresh_world)) = 0x146 \<and>
   ucast (ctt (mmio (set_ctt_threshold sample_env fresh_world)) AND 0x1ff)
     = encode_temp (codec sample_env) 113 \<and>
   decode_temp (codec sample_env)
     (ucast (ctt (mmio (set_ctt_threshold sample_env fresh_world)) AND 0x1ff)) = 113 \<and>
   decode_temp (codec sample_env) (ucast (ctt (mmio cool_world) AND 0x1ff)) <s 113 \<and>
   set_ctt_threshold sample_env cool_world = cool_world"
proof -
  have hot: "113 \<le>s decode_temp (codec sample_env) (ucast (ctt (mmio fresh_world) AND 0x1ff))"
    by (simp add: sample_env_def fresh_world_def decode_sample)
  have before: "ctt (mmio fresh_world) = 0x154"
    by (simp add: fresh_world_def)
  have after: "ctt (mmio (set_ctt_threshold sample_env fresh_world)) = 0x146"
    by (simp add: set_ctt_threshold_hot [OF hot] ctt_write_ctt)
      (simp add: sample_env_def encode_sample)
  have cool: "decode_temp (codec sample_env) (ucast (ctt (mmio cool_world) AND 0x1ff)) <s 113"
    by (simp add: sample_env_def cool_world_def decode_sample)
  from ctt_clamp_law [of sample_env fresh_world] ctt_clamp_law [of sample_env cool_world]
    hot before after cool
  show ?thesis by blast
qed

section \<open>What the cleanup does to each part of the world\<close>

lemma cleanup_ctx:
  "g_pch_thermal_context (pch_thermal_cleanup d w) =
     (g_pch_thermal_context w)\<lparr>aspace := NULL, regs := NULL\<rparr>"
  by (simp add: pch_thermal_cleanup_def Let_def collaborator_defs)

lemma cleanup_mmio:
  "mmio (pch_thermal_cleanup d w) =
     (if regs (g_pch_thermal_context w) \<noteq> NULL
      then (mmio w)\<lparr>tsel := tsel (mmio w) AND NOT 1\<rparr> else mmio w)"
  by (simp add: pch_thermal_cleanup_def Let_def collaborator_defs)

lemma cleanup_regions:
  "vmm_regions (pch_thermal_cleanup d w) =
     (if regs (g_pch_thermal_context w) \<noteq> NULL
      then removeAll (aspace (g_pch_thermal_context w), regs (g_pch_thermal_context w))
             (vmm_regions w)
      else vmm_regions w)"
  by (simp add: pch_thermal_cleanup_def Let_def collaborator_defs)

lemma cleanup_trace:
  "trace (pch_thermal_cleanup d w) =
     trace w
     @ (if d then [EvSetIrqModeDisabled] else [])
     @ (if regs (g_pch_thermal_context w) \<noteq> NULL
        then [EvWriteTsel (tsel (mmio w) AND NOT 1),
              EvVmmFreeRegion (aspace (g_pch_thermal_context w)) (regs (g_pch_thermal_context w))]
        else [])"
  by (simp add: pch_thermal_cleanup_def Let_def collaborator_defs)

lemma cleanup_pci:
  "pci (pch_thermal_cleanup d w) =
     (if d then (pci w)\<lparr>irq_mode := PCIE_IRQ_MODE_DISABLED\<rparr> else pci w)"
  by (simp add: pch_thermal_cleanup_def Let_def collaborator_defs)

lemma sensor_bit_cleared: "((x :: 8 word) AND NOT 1) AND 1 = 0"
  by (simp add: and.assoc)

lemma sensor_disabled_after_clear: "\<not> sensor_enabled (r\<lparr>tsel := tsel r AND NOT 1\<rparr>)"
  unfolding sensor_enabled_def using sensor_bit_cleared [of "tsel r"] by simp

section \<open>What startup has done when it reaches the label\<close>

lemma startup_acquire_failed:
  assumes "startup_acquire E w = Inr (status, w1)" and "status \<noteq> NO_ERROR"
  shows "g_pch_thermal_context w1 = (g_pch_thermal_context w)\<lparr>aspace := kernel_aspace E\<rparr>"
    and "regs (g_pch_thermal_context w) = NULL"
    and "mmio w1 = mmio w"
    and "vmm_regions w1 = vmm_regions w"
    and "status \<in> {set_irq_mode_status E, register_irq_handler_status E, ERR_INVALID_ARGS,
                    alloc_physical_status E}"
  using assms
  by (auto simp add: startup_acquire_def Let_def collaborator_defs
      split: if_splits option.splits)

lemma startup_acquire_done:
  assumes "startup_acquire E w = Inr (NO_ERROR, w1)"
  shows "g_pch_thermal_context w1 =
           (g_pch_thermal_context w)\<lparr>aspace := kernel_aspace E, regs := alloc_physical_vaddr E\<rparr>"
    and "regs (g_pch_thermal_context w) = NULL"
    and "alloc_physical_vaddr E \<noteq> NULL"
    and "mmio w1 = mmio w"
    and "vmm_regions w1 = vmm_regions w @ [(kernel_aspace E, alloc_physical_vaddr E)]"
    and "driver_ctx (pci w1) = Some G_PCH_THERMAL_CONTEXT"
  using assms
  by (auto simp add: startup_acquire_def Let_def collaborator_defs
      split: if_splits option.splits)

lemma configure_ctx:
  "g_pch_thermal_context (startup_configure E w) = g_pch_thermal_context w"
  by (simp add: startup_configure_def set_ctt_threshold_def Let_def collaborator_defs)

lemma configure_regions: "vmm_regions (startup_configure E w) = vmm_regions w"
  by (simp add: startup_configure_def set_ctt_threshold_def Let_def collaborator_defs)

lemma configure_pci: "pci (startup_configure E w) = pci w"
  by (simp add: startup_configure_def set_ctt_threshold_def Let_def collaborator_defs)

lemma configure_tsel: "tsel (mmio (startup_configure E w)) = tsel (mmio w) OR 1"
  by (simp add: startup_configure_def set_ctt_threshold_def Let_def collaborator_defs)

lemma sensor_bit_set: "((x :: 8 word) OR 1) AND 1 = 1"
  by (simp add: bit.conj_disj_distrib2)

section \<open>Teardown\<close>

text \<open>
  C6. The order of the teardown. The log of \<^verbatim>\<open>pch_thermal_cleanup\<close> is the log before
  it, then the IRQ-mode disable when the device handle is valid, then, when \<open>regs\<close> is
  not null, the write that clears the sensor-enable bit of \<open>tsel\<close> followed by the
  release of the mapping; the release is logged with the address space and the pointer
  the context held, so both were still set at that moment. Afterwards \<open>aspace\<close> and
  \<open>regs\<close> are null and \<open>device_claimed\<close> is what it was.
\<close>

theorem cleanup_step_order:
  "trace (pch_thermal_cleanup d w) =
     trace w
     @ (if d then [EvSetIrqModeDisabled] else [])
     @ (if regs (g_pch_thermal_context w) \<noteq> NULL
        then [EvWriteTsel (tsel (mmio w) AND NOT 1),
              EvVmmFreeRegion (aspace (g_pch_thermal_context w)) (regs (g_pch_thermal_context w))]
        else [])
   \<and> g_pch_thermal_context (pch_thermal_cleanup d w) =
       \<lparr>device_claimed = device_claimed (g_pch_thermal_context w), aspace = NULL, regs = NULL\<rparr>
   \<and> (if regs (g_pch_thermal_context w) \<noteq> NULL
      then \<not> sensor_enabled (mmio (pch_thermal_cleanup d w)) \<and>
           (aspace (g_pch_thermal_context w), regs (g_pch_thermal_context w))
             \<notin> set (vmm_regions (pch_thermal_cleanup d w))
      else mmio (pch_thermal_cleanup d w) = mmio w \<and>
           vmm_regions (pch_thermal_cleanup d w) = vmm_regions w)
   \<and> (if d then irq_mode (pci (pch_thermal_cleanup d w)) = PCIE_IRQ_MODE_DISABLED
      else pci (pch_thermal_cleanup d w) = pci w)"
  using sensor_disabled_after_clear [of "mmio w"]
  by (simp add: cleanup_trace cleanup_ctx cleanup_mmio cleanup_regions cleanup_pci)

theorem cleanup_step_order_witness:
  "trace (pch_thermal_cleanup True started_world) =
     trace started_world @
     [EvSetIrqModeDisabled, EvWriteTsel 0, EvVmmFreeRegion 0x1000 0x200000] \<and>
   g_pch_thermal_context (pch_thermal_cleanup True started_world) =
     \<lparr>device_claimed = True, aspace = NULL, regs = NULL\<rparr> \<and>
   \<not> sensor_enabled (mmio (pch_thermal_cleanup True started_world)) \<and>
   vmm_regions (pch_thermal_cleanup True started_world) = []"
proof -
  have a: "g_pch_thermal_context started_world =
      \<lparr>device_claimed = True, aspace = 0x1000, regs = 0x200000\<rparr>"
    and b: "tsel (mmio started_world) = 1"
    and c: "vmm_regions started_world = [(0x1000, 0x200000)]"
    by (simp_all add: started_world_def)
  have d: "vmm_regions (pch_thermal_cleanup True started_world) = []"
    by (simp add: cleanup_regions a c)
  from cleanup_step_order [of True started_world] a b d show ?thesis
    by simp
qed

text \<open>
  C5. The teardown is idempotent. With \<open>regs\<close> null it writes no register, frees no
  region and logs nothing but the IRQ-mode disable; it always leaves \<open>regs\<close> and
  \<open>aspace\<close> null; a second teardown changes neither the context, nor the registers,
  nor the regions; and after a shutdown that returned, a second shutdown returns too,
  with the same context, registers and regions.
\<close>

theorem cleanup_idempotent:
  "(regs (g_pch_thermal_context w) = NULL \<longrightarrow>
      mmio (pch_thermal_cleanup d w) = mmio w \<and>
      vmm_regions (pch_thermal_cleanup d w) = vmm_regions w \<and>
      trace (pch_thermal_cleanup d w) = trace w @ (if d then [EvSetIrqModeDisabled] else []) \<and>
      g_pch_thermal_context (pch_thermal_cleanup d w) =
        (g_pch_thermal_context w)\<lparr>aspace := NULL\<rparr>) \<and>
   regs (g_pch_thermal_context (pch_thermal_cleanup d w)) = NULL \<and>
   aspace (g_pch_thermal_context (pch_thermal_cleanup d w)) = NULL \<and>
   g_pch_thermal_context (pch_thermal_cleanup d' (pch_thermal_cleanup d w)) =
     g_pch_thermal_context (pch_thermal_cleanup d w) \<and>
   mmio (pch_thermal_cleanup d' (pch_thermal_cleanup d w)) = mmio (pch_thermal_cleanup d w) \<and>
   vmm_regions (pch_thermal_cleanup d' (pch_thermal_cleanup d w)) =
     vmm_regions (pch_thermal_cleanup d w) \<and>
   (pch_thermal_shutdown w = Inr w1 \<longrightarrow>
      (\<exists>w2. pch_thermal_shutdown w1 = Inr w2 \<and>
            g_pch_thermal_context w2 = g_pch_thermal_context w1 \<and> mmio w2 = mmio w1 \<and>
            vmm_regions w2 = vmm_regions w1))"
proof -
  have once: "regs (g_pch_thermal_context (pch_thermal_cleanup d w)) = NULL"
    "aspace (g_pch_thermal_context (pch_thermal_cleanup d w)) = NULL"
    by (simp_all add: cleanup_ctx)
  have noop: "regs (g_pch_thermal_context w) = NULL \<longrightarrow>
      mmio (pch_thermal_cleanup d w) = mmio w \<and>
      vmm_regions (pch_thermal_cleanup d w) = vmm_regions w \<and>
      trace (pch_thermal_cleanup d w) = trace w @ (if d then [EvSetIrqModeDisabled] else []) \<and>
      g_pch_thermal_context (pch_thermal_cleanup d w) =
        (g_pch_thermal_context w)\<lparr>aspace := NULL\<rparr>"
    by (simp add: cleanup_mmio cleanup_regions cleanup_trace cleanup_ctx)
  have twice: "g_pch_thermal_context (pch_thermal_cleanup d' (pch_thermal_cleanup d w)) =
     g_pch_thermal_context (pch_thermal_cleanup d w)"
    "mmio (pch_thermal_cleanup d' (pch_thermal_cleanup d w)) = mmio (pch_thermal_cleanup d w)"
    "vmm_regions (pch_thermal_cleanup d' (pch_thermal_cleanup d w)) =
     vmm_regions (pch_thermal_cleanup d w)"
    by (simp_all add: cleanup_mmio cleanup_regions cleanup_ctx)
  have again: "pch_thermal_shutdown w = Inr w1 \<longrightarrow>
      (\<exists>w2. pch_thermal_shutdown w1 = Inr w2 \<and>
            g_pch_thermal_context w2 = g_pch_thermal_context w1 \<and> mmio w2 = mmio w1 \<and>
            vmm_regions w2 = vmm_regions w1)"
    by (auto simp add: pch_thermal_shutdown_def cleanup_mmio cleanup_regions cleanup_ctx
        cleanup_pci split: if_splits)
  from once noop twice again show ?thesis by blast
qed

theorem cleanup_idempotent_witness:
  "regs (g_pch_thermal_context unwound_world) = NULL \<and>
   g_pch_thermal_context (pch_thermal_cleanup True unwound_world) =
     g_pch_thermal_context unwound_world \<and>
   mmio (pch_thermal_cleanup True unwound_world) = mmio unwound_world \<and>
   vmm_regions (pch_thermal_cleanup True unwound_world) = vmm_regions unwound_world \<and>
   pch_thermal_shutdown started_world = Inr (pch_thermal_cleanup True started_world) \<and>
   pch_thermal_shutdown (pch_thermal_cleanup True started_world) =
     Inr (pch_thermal_cleanup True (pch_thermal_cleanup True started_world)) \<and>
   g_pch_thermal_context (pch_thermal_cleanup True (pch_thermal_cleanup True started_world)) =
     g_pch_thermal_context (pch_thermal_cleanup True started_world) \<and>
   mmio (pch_thermal_cleanup True (pch_thermal_cleanup True started_world)) =
     mmio (pch_thermal_cleanup True started_world)"
proof -
  have a: "regs (g_pch_thermal_context unwound_world) = NULL"
    and b: "aspace (g_pch_thermal_context unwound_world) = NULL"
    by (simp_all add: unwound_world_def)
  have c: "pch_thermal_shutdown started_world = Inr (pch_thermal_cleanup True started_world)"
    by (simp add: pch_thermal_shutdown_def started_world_def)
  have d: "pch_thermal_shutdown (pch_thermal_cleanup True started_world) =
     Inr (pch_thermal_cleanup True (pch_thermal_cleanup True started_world))"
    by (simp add: pch_thermal_shutdown_def cleanup_pci started_world_def)
  from cleanup_idempotent [of unwound_world True True "pch_thermal_cleanup True unwound_world"]
    a b have e: "g_pch_thermal_context (pch_thermal_cleanup True unwound_world) =
        g_pch_thermal_context unwound_world \<and>
      mmio (pch_thermal_cleanup True unwound_world) = mmio unwound_world \<and>
      vmm_regions (pch_thermal_cleanup True unwound_world) = vmm_regions unwound_world"
    by simp
  from cleanup_idempotent [of started_world True True "pch_thermal_cleanup True started_world"]
  have f: "g_pch_thermal_context (pch_thermal_cleanup True (pch_thermal_cleanup True started_world)) =
     g_pch_thermal_context (pch_thermal_cleanup True started_world) \<and>
   mmio (pch_thermal_cleanup True (pch_thermal_cleanup True started_world)) =
     mmio (pch_thermal_cleanup True started_world)"
    by blast
  from a c d e f show ?thesis by blast
qed

section \<open>Startup failures\<close>

lemma startup_body_failed:
  assumes "startup_body E w = Inr (status, w1)" and "status \<noteq> NO_ERROR"
  shows "device_claimed (g_pch_thermal_context w1) = device_claimed (g_pch_thermal_context w) \<and>
         status \<in> {set_irq_mode_status E, register_irq_handler_status E, ERR_INVALID_ARGS,
                   alloc_physical_status E, unmask_irq_status E} \<and>
         set (vmm_regions (pch_thermal_cleanup True w1)) \<subseteq> set (vmm_regions w) \<and>
         regs (g_pch_thermal_context w) = NULL"
proof -
  obtain st0 w0 where acq: "startup_acquire E w = Inr (st0, w0)"
    using assms(1) by (auto simp add: startup_body_def split: sum.splits)
  show ?thesis
  proof (cases "st0 = NO_ERROR")
    case True
    with acq assms have w1: "w1 = snd (pcie_unmask_irq E (startup_configure E w0))"
      and st: "status = unmask_irq_status E"
      by (auto simp add: startup_body_def pcie_unmask_irq_def)
    from acq True have ok: "startup_acquire E w = Inr (NO_ERROR, w0)" by simp
    have ctx: "g_pch_thermal_context w1 =
        (g_pch_thermal_context w)\<lparr>aspace := kernel_aspace E, regs := alloc_physical_vaddr E\<rparr>"
      by (simp add: w1 pcie_unmask_irq_def log_event_def configure_ctx
          startup_acquire_done(1) [OF ok])
    have regions: "vmm_regions w1 = vmm_regions w @ [(kernel_aspace E, alloc_physical_vaddr E)]"
      by (simp add: w1 pcie_unmask_irq_def log_event_def configure_regions
          startup_acquire_done(5) [OF ok])
    have "set (vmm_regions (pch_thermal_cleanup True w1)) \<subseteq> set (vmm_regions w)"
      using startup_acquire_done(3) [OF ok]
      by (auto simp add: cleanup_regions ctx regions)
    then show ?thesis
      by (simp add: st ctx startup_acquire_done(2) [OF ok])
  next
    case False
    with acq assms have eq: "w1 = w0" "status = st0"
      by (auto simp add: startup_body_def)
    from acq False have failed: "startup_acquire E w = Inr (st0, w0)" "st0 \<noteq> NO_ERROR"
      by simp_all
    note facts = startup_acquire_failed [OF failed]
    have "set (vmm_regions (pch_thermal_cleanup True w1)) \<subseteq> set (vmm_regions w)"
      by (simp add: cleanup_regions eq facts(1,2,4))
    moreover have "status \<in> {set_irq_mode_status E, register_irq_handler_status E,
        ERR_INVALID_ARGS, alloc_physical_status E, unmask_irq_status E}"
      using facts(5) by (auto simp add: eq)
    ultimately show ?thesis
      by (simp add: eq facts(1,2))
  qed
qed

lemma startup_failed:
  assumes "pch_thermal_startup E w = Inr (status, w')" and "status \<noteq> NO_ERROR"
  shows "(\<exists>w1. startup_body E w = Inr (status, w1) \<and> w' = pch_thermal_cleanup True w1) \<and>
         status \<in> {set_irq_mode_status E, register_irq_handler_status E, ERR_INVALID_ARGS,
                   alloc_physical_status E, unmask_irq_status E} \<and>
         regs (g_pch_thermal_context w') = NULL \<and>
         aspace (g_pch_thermal_context w') = NULL \<and>
         device_claimed (g_pch_thermal_context w') = device_claimed (g_pch_thermal_context w) \<and>
         irq_mode (pci w') = PCIE_IRQ_MODE_DISABLED \<and>
         set (vmm_regions w') \<subseteq> set (vmm_regions w)"
proof -
  from assms obtain w1 where body: "startup_body E w = Inr (status, w1)"
    and w': "w' = pch_thermal_cleanup True w1"
    by (auto simp add: pch_thermal_startup_def split: sum.splits)
  from startup_body_failed [OF body assms(2)] body show ?thesis
    by (simp add: w' cleanup_ctx cleanup_pci)
qed

lemma failing_step_returns:
  assumes "asserts_hold E w" and "failing_step E = Some st"
  shows "st \<noteq> NO_ERROR \<and>
         (\<exists>w1. startup_body E w = Inr (st, w1) \<and>
               pch_thermal_startup E w = Inr (st, pch_thermal_cleanup True w1))"
proof -
  from assms(1) obtain bar_info where bar: "bar0 E = Some bar_info"
    and addr: "bus_addr bar_info \<noteq> 0"
    by (auto simp add: asserts_hold_def split: option.splits)
  from assms(2) have ne: "st \<noteq> NO_ERROR"
    by (auto simp add: failing_step_def split: if_splits)
  from assms bar addr have "\<exists>w1. startup_body E w = Inr (st, w1)"
    by (auto simp add: asserts_hold_def failing_step_def startup_body_def startup_acquire_def
        Let_def collaborator_defs split: if_splits)
  then obtain w1 where body: "startup_body E w = Inr (st, w1)" ..
  with ne have "pch_thermal_startup E w = Inr (st, pch_thermal_cleanup True w1)"
    by (simp add: pch_thermal_startup_def)
  with ne body show ?thesis by blast
qed

text \<open>
  C2. The unwind of a failed startup. When startup returns a status other than
  \<^verbatim>\<open>NO_ERROR\<close>, the status is the one of the failing step (IRQ mode, IRQ handler, address
  range, mapping or IRQ unmask), the state returned is the cleanup of the state at the
  jump to \<^verbatim>\<open>finished\<close>, \<open>regs\<close> and \<open>aspace\<close> are null, \<open>device_claimed\<close> is what it was,
  the IRQ mode is disabled and no region has been added. And when the assertions hold
  and some step fails, startup does return: the status of the first failing step, after
  the cleanup.
\<close>

theorem startup_failure_unwind:
  "(pch_thermal_startup E w = Inr (status, w') \<and> status \<noteq> NO_ERROR \<longrightarrow>
      (\<exists>w1. startup_body E w = Inr (status, w1) \<and> w' = pch_thermal_cleanup True w1) \<and>
      status \<in> {set_irq_mode_status E, register_irq_handler_status E, ERR_INVALID_ARGS,
                alloc_physical_status E, unmask_irq_status E} \<and>
      regs (g_pch_thermal_context w') = NULL \<and>
      aspace (g_pch_thermal_context w') = NULL \<and>
      device_claimed (g_pch_thermal_context w') = device_claimed (g_pch_thermal_context w) \<and>
      irq_mode (pci w') = PCIE_IRQ_MODE_DISABLED \<and>
      set (vmm_regions w') \<subseteq> set (vmm_regions w)) \<and>
   (asserts_hold E w \<and> failing_step E = Some st \<longrightarrow>
      st \<noteq> NO_ERROR \<and>
      (\<exists>w1. startup_body E w = Inr (st, w1) \<and>
            pch_thermal_startup E w = Inr (st, pch_thermal_cleanup True w1)))"
  using startup_failed [of E w status w'] failing_step_returns [of E w st]
  by blast

theorem startup_failure_unwind_witness:
  "asserts_hold mapping_fails_env claimed_world \<and>
   failing_step mapping_fails_env = Some (ERR_OTHER 5) \<and>
   pch_thermal_startup mapping_fails_env claimed_world = Inr (ERR_OTHER 5, unwound_world) \<and>
   ERR_OTHER 5 \<noteq> NO_ERROR \<and>
   device_claimed (g_pch_thermal_context claimed_world) \<and>
   regs (g_pch_thermal_context unwound_world) = NULL \<and>
   aspace (g_pch_thermal_context unwound_world) = NULL \<and>
   device_claimed (g_pch_thermal_context unwound_world) \<and>
   irq_mode (pci unwound_world) = PCIE_IRQ_MODE_DISABLED \<and>
   vmm_regions unwound_world = []"
proof -
  have ne: "ERR_OTHER 5 \<noteq> NO_ERROR" by simp
  have c: "device_claimed (g_pch_thermal_context claimed_world)"
    and v: "vmm_regions claimed_world = []"
    by (simp_all add: claimed_world_def)
  have a: "asserts_hold mapping_fails_env claimed_world"
    by (simp add: asserts_hold_def mapping_fails_env_def sample_env_def claimed_world_def)
  have f: "failing_step mapping_fails_env = Some (ERR_OTHER 5)"
    by (simp add: failing_step_def mapping_fails_env_def sample_env_def ROUNDUP_def)
  from startup_failure_unwind
    [of mapping_fails_env claimed_world "ERR_OTHER 5" unwound_world "ERR_OTHER 5"]
    startup_mapping_fails ne c v a f
  show ?thesis by auto
qed

section \<open>The BAR query\<close>

lemma acquire_trace:
  assumes "startup_acquire E w = Inr (status, w1)"
  shows "\<exists>rest. trace w1 = trace w @ EvSetIrqModeLegacy # rest"
  using assms
  by (auto simp add: startup_acquire_def Let_def collaborator_defs
      split: if_splits option.splits)

lemma configure_trace: "\<exists>rest. trace (startup_configure E w) = trace w @ rest"
  by (simp add: startup_configure_def set_ctt_threshold_def Let_def collaborator_defs)

lemma startup_trace:
  assumes "pch_thermal_startup E w = Inr (status, w')"
  shows "\<exists>rest. trace w' = trace w @ EvSetIrqModeLegacy # rest"
proof -
  from assms obtain st0 w0 where acq: "startup_acquire E w = Inr (st0, w0)"
    by (auto simp add: pch_thermal_startup_def startup_body_def split: sum.splits)
  from acquire_trace [OF acq] obtain r0
    where r0: "trace w0 = trace w @ EvSetIrqModeLegacy # r0" ..
  from configure_trace [of E w0] obtain r1
    where r1: "trace (startup_configure E w0) = trace w0 @ r1" ..
  from assms acq have "\<exists>r2. trace w' = trace w0 @ r2"
    by (auto simp add: pch_thermal_startup_def startup_body_def pcie_unmask_irq_def
        log_event_def cleanup_trace r1 split: if_splits)
  then obtain r2 where "trace w' = trace w0 @ r2" ..
  with r0 have "trace w' = trace w @ EvSetIrqModeLegacy # (r0 @ r2)" by simp
  then show ?thesis ..
qed

lemma startup_returns_or_vaddr_fault:
  assumes "bar0 E = Some b" and "bus_addr b \<noteq> 0"
    and "regs (g_pch_thermal_context w) = NULL"
    and "driver_ctx (pci w) = Some G_PCH_THERMAL_CONTEXT"
  shows "(\<exists>status w'. pch_thermal_startup E w = Inr (status, w')) \<or>
         (pch_thermal_startup E w = Inl ASSERT_FAILED \<and>
          set_irq_mode_status E = NO_ERROR \<and> register_irq_handler_status E = NO_ERROR \<and>
          alloc_physical_status E = NO_ERROR \<and> alloc_physical_vaddr E = NULL)"
  using assms
  by (auto simp add: pch_thermal_startup_def startup_body_def startup_acquire_def Let_def
      collaborator_defs split: if_splits)

text \<open>
  C8, as amended. When the first BAR does not exist, or its bus address is zero, startup
  stops at the failed assertion: no status is returned. The size of the region is not
  looked at by the query: with a non-zero bus address, whatever the size, startup goes
  on to IRQ-mode configuration. Either it returns, and the first call it has added to
  the log is the IRQ mode request; or it stops at the later assertion on the mapped
  address, after the IRQ mode request, the handler registration and the mapping request
  have succeeded.
\<close>

theorem startup_bar_query_assert:
  "(bar0 E = None \<or> (\<exists>b. bar0 E = Some b \<and> bus_addr b = 0) \<longrightarrow>
      pch_thermal_startup E w = Inl ASSERT_FAILED) \<and>
   (\<forall>b. bar0 E = Some b \<and> bus_addr b \<noteq> 0 \<and> regs (g_pch_thermal_context w) = NULL \<and>
        driver_ctx (pci w) = Some G_PCH_THERMAL_CONTEXT \<longrightarrow>
      (\<exists>status w' rest. pch_thermal_startup E w = Inr (status, w') \<and>
         trace w' = trace w @ EvSetIrqModeLegacy # rest) \<or>
      (pch_thermal_startup E w = Inl ASSERT_FAILED \<and>
       set_irq_mode_status E = NO_ERROR \<and> register_irq_handler_status E = NO_ERROR \<and>
       alloc_physical_status E = NO_ERROR \<and> alloc_physical_vaddr E = NULL))"
proof -
  have first: "bar0 E = None \<or> (\<exists>b. bar0 E = Some b \<and> bus_addr b = 0) \<longrightarrow>
      pch_thermal_startup E w = Inl ASSERT_FAILED"
    by (auto simp add: pch_thermal_startup_def startup_body_def startup_acquire_def Let_def)
  have second: "(\<exists>status w' rest. pch_thermal_startup E w = Inr (status, w') \<and>
         trace w' = trace w @ EvSetIrqModeLegacy # rest) \<or>
      (pch_thermal_startup E w = Inl ASSERT_FAILED \<and>
       set_irq_mode_status E = NO_ERROR \<and> register_irq_handler_status E = NO_ERROR \<and>
       alloc_physical_status E = NO_ERROR \<and> alloc_physical_vaddr E = NULL)"
    if "bar0 E = Some b" "bus_addr b \<noteq> 0" "regs (g_pch_thermal_context w) = NULL"
      "driver_ctx (pci w) = Some G_PCH_THERMAL_CONTEXT" for b
    using startup_returns_or_vaddr_fault [OF that] startup_trace [of E w] by blast
  from first second show ?thesis by blast
qed

theorem startup_bar_query_assert_witness:
  "bar0 no_bar_env = None \<and>
   pch_thermal_startup no_bar_env claimed_world = Inl ASSERT_FAILED \<and>
   bar0 zero_size_env = Some \<lparr>bus_addr = 0xfed08000, size_bar = 0\<rparr> \<and>
   regs (g_pch_thermal_context claimed_world) = NULL \<and>
   driver_ctx (pci claimed_world) = Some G_PCH_THERMAL_CONTEXT \<and>
   pch_thermal_startup zero_size_env claimed_world = Inr (NO_ERROR, zero_size_started_world) \<and>
   trace zero_size_started_world =
     trace claimed_world @ EvSetIrqModeLegacy #
       [EvRegisterIrqHandler, EvVmmAllocPhysical 0x1000 0 0xfed08000, EvEnableMmio,
        EvWriteTsel 1, EvWriteCtt 0x146, EvWriteTsc 1, EvUnmaskIrq]"
proof -
  have a: "bar0 no_bar_env = None"
    by (simp add: no_bar_env_def)
  have b: "bar0 zero_size_env = Some \<lparr>bus_addr = 0xfed08000, size_bar = 0\<rparr>"
    by (simp add: zero_size_env_def)
  have d: "regs (g_pch_thermal_context claimed_world) = NULL"
    and e: "driver_ctx (pci claimed_world) = Some G_PCH_THERMAL_CONTEXT"
    and t: "trace claimed_world = []"
    by (simp_all add: claimed_world_def)
  from startup_bar_query_assert [of no_bar_env claimed_world] a
  have f: "pch_thermal_startup no_bar_env claimed_world = Inl ASSERT_FAILED" by simp
  from startup_bar_query_assert [of zero_size_env claimed_world] b d e
  have "\<exists>status w' rest. pch_thermal_startup zero_size_env claimed_world = Inr (status, w') \<and>
         trace w' = trace claimed_world @ EvSetIrqModeLegacy # rest"
    by (simp add: startup_zero_size)
  then have g: "\<exists>rest. trace zero_size_started_world = EvSetIrqModeLegacy # rest"
    by (simp add: startup_zero_size t)
  have h: "trace zero_size_started_world =
     trace claimed_world @ EvSetIrqModeLegacy #
       [EvRegisterIrqHandler, EvVmmAllocPhysical 0x1000 0 0xfed08000, EvEnableMmio,
        EvWriteTsel 1, EvWriteCtt 0x146, EvWriteTsc 1, EvUnmaskIrq]"
    using g by (simp add: zero_size_started_world_def t)
  from a b d e f h startup_zero_size show ?thesis by simp
qed

text \<open>
  Without a first BAR, startup returns no status at all; and with a first BAR of size
  zero, while every collaborator succeeds, startup succeeds.
\<close>

theorem bar_query_counterexample:
  "bar0 no_bar_env = None \<and>
   pch_thermal_startup no_bar_env claimed_world = Inl ASSERT_FAILED \<and>
   bar0 zero_size_env = Some \<lparr>bus_addr = 0xfed08000, size_bar = 0\<rparr> \<and>
   pch_thermal_startup zero_size_env claimed_world = Inr (NO_ERROR, zero_size_started_world)"
proof -
  have "bar0 no_bar_env = None"
    and "bar0 zero_size_env = Some \<lparr>bus_addr = 0xfed08000, size_bar = 0\<rparr>"
    by (simp_all add: no_bar_env_def zero_size_env_def)
  moreover have "pch_thermal_startup no_bar_env claimed_world = Inl ASSERT_FAILED"
    by (simp add: pch_thermal_startup_def startup_body_def startup_acquire_def
        no_bar_env_def claimed_world_def)
  ultimately show ?thesis
    using startup_zero_size by blast
qed

section \<open>The whole lifecycle\<close>

lemma startup_succeeded:
  assumes "pch_thermal_startup E w = Inr (NO_ERROR, w2)"
  shows "g_pch_thermal_context w2 =
           (g_pch_thermal_context w)\<lparr>aspace := kernel_aspace E, regs := alloc_physical_vaddr E\<rparr>"
    and "alloc_physical_vaddr E \<noteq> NULL"
    and "regs (g_pch_thermal_context w) = NULL"
    and "driver_ctx (pci w2) = Some G_PCH_THERMAL_CONTEXT"
    and "vmm_regions w2 = vmm_regions w @ [(kernel_aspace E, alloc_physical_vaddr E)]"
    and "sensor_enabled (mmio w2)"
proof -
  from assms obtain w1 where acq: "startup_acquire E w = Inr (NO_ERROR, w1)"
    and w2: "w2 = snd (pcie_unmask_irq E (startup_configure E w1))"
    by (auto simp add: pch_thermal_startup_def startup_body_def
        split: sum.splits if_splits prod.splits)
  note facts = startup_acquire_done [OF acq]
  show "g_pch_thermal_context w2 =
           (g_pch_thermal_context w)\<lparr>aspace := kernel_aspace E, regs := alloc_physical_vaddr E\<rparr>"
    by (simp add: w2 pcie_unmask_irq_def log_event_def configure_ctx facts(1))
  show "alloc_physical_vaddr E \<noteq> NULL" by (rule facts(3))
  show "regs (g_pch_thermal_context w) = NULL" by (rule facts(2))
  show "driver_ctx (pci w2) = Some G_PCH_THERMAL_CONTEXT"
    by (simp add: w2 pcie_unmask_irq_def log_event_def configure_pci facts(6))
  show "vmm_regions w2 = vmm_regions w @ [(kernel_aspace E, alloc_physical_vaddr E)]"
    by (simp add: w2 pcie_unmask_irq_def log_event_def configure_regions facts(5))
  show "sensor_enabled (mmio w2)"
    by (simp add: w2 pcie_unmask_irq_def log_event_def sensor_enabled_def configure_tsel
        sensor_bit_set)
qed

text \<open>
  C9. The whole lifecycle. From the initial context, a probe of a supported device is
  granted; when startup then succeeds on the device the framework passes, shutdown and
  release both return, the context is the initial one again, and a further probe of the
  same device is granted again.
\<close>

theorem full_lifecycle:
  assumes "g_pch_thermal_context w0 = initial_context"
    and "vendor_id d = 0x8086" and "device_id d \<in> set intel_dids"
    and "pch_thermal_probe d w0 = (h, w1)"
    and "pch_thermal_startup E (w1\<lparr>pci := p\<rparr>) = Inr (NO_ERROR, w2)"
  shows "h = Some G_PCH_THERMAL_CONTEXT \<and>
         (\<exists>w3 w4. pch_thermal_shutdown w2 = Inr w3 \<and> pch_thermal_release h w3 = Inr w4 \<and>
                  g_pch_thermal_context w4 = initial_context \<and>
                  fst (pch_thermal_probe d w4) = Some G_PCH_THERMAL_CONTEXT)"
proof -
  from assms(1-4) have h: "h = Some G_PCH_THERMAL_CONTEXT"
    and w1: "g_pch_thermal_context w1 = initial_context\<lparr>device_claimed := True\<rparr>"
    by (auto simp add: pch_thermal_probe_def did_loop_set INTEL_VID_def initial_context_def)
  note up = startup_succeeded [OF assms(5)]
  have g2: "g_pch_thermal_context w2 =
      \<lparr>device_claimed = True, aspace = kernel_aspace E, regs = alloc_physical_vaddr E\<rparr>"
    by (simp add: up(1) w1 initial_context_def)
  define w3 where "w3 = pch_thermal_cleanup True w2"
  define w4 where "w4 = w3\<lparr>g_pch_thermal_context :=
                             (g_pch_thermal_context w3)\<lparr>device_claimed := False\<rparr>\<rparr>"
  have s: "pch_thermal_shutdown w2 = Inr w3"
    by (simp add: pch_thermal_shutdown_def up(4) w3_def)
  have g3: "g_pch_thermal_context w3 = \<lparr>device_claimed = True, aspace = NULL, regs = NULL\<rparr>"
    by (simp add: w3_def cleanup_ctx g2)
  have r: "pch_thermal_release h w3 = Inr w4"
    by (simp add: pch_thermal_release_def h g3 w4_def)
  have g4: "g_pch_thermal_context w4 = initial_context"
    by (simp add: w4_def g3 initial_context_def)
  have "fst (pch_thermal_probe d w4) = Some G_PCH_THERMAL_CONTEXT"
    using assms(2,3)
    by (simp add: pch_thermal_probe_def did_loop_set INTEL_VID_def g4 initial_context_def)
  with h s r g4 show ?thesis by blast
qed

theorem full_lifecycle_witness:
  "g_pch_thermal_context fresh_world = initial_context \<and>
   vendor_id sample_device = 0x8086 \<and> device_id sample_device \<in> set intel_dids \<and>
   pch_thermal_probe sample_device fresh_world =
     (Some G_PCH_THERMAL_CONTEXT, snd (pch_thermal_probe sample_device fresh_world)) \<and>
   pch_thermal_startup sample_env claimed_world = Inr (NO_ERROR, started_world) \<and>
   g_pch_thermal_context
     (projr (pch_thermal_release (Some G_PCH_THERMAL_CONTEXT)
        (projr (pch_thermal_shutdown started_world)))) = initial_context \<and>
   fst (pch_thermal_probe sample_device
     (projr (pch_thermal_release (Some G_PCH_THERMAL_CONTEXT)
        (projr (pch_thermal_shutdown started_world))))) = Some G_PCH_THERMAL_CONTEXT"
proof -
  have a: "g_pch_thermal_context fresh_world = initial_context"
    by (simp add: fresh_world_def)
  have b: "vendor_id sample_device = 0x8086" and c: "device_id sample_device \<in> set intel_dids"
    by (simp_all add: sample_device_def intel_dids_def)
  have p: "pch_thermal_probe sample_device fresh_world =
     (Some G_PCH_THERMAL_CONTEXT, snd (pch_thermal_probe sample_device fresh_world))"
    by (simp add: pch_thermal_probe_def sample_device_def fresh_world_def initial_context_def
        INTEL_VID_def intel_dids_def)
  have s: "pch_thermal_startup sample_env
      ((snd (pch_thermal_probe sample_device fresh_world))
         \<lparr>pci := sample_device\<lparr>driver_ctx := Some G_PCH_THERMAL_CONTEXT\<rparr>\<rparr>)
      = Inr (NO_ERROR, started_world)"
    by (simp only: claimed_world_eq startup_sample)
  from full_lifecycle [OF a b c p s] startup_sample a b c p show ?thesis
    by auto
qed

section \<open>Invariant I1\<close>

lemma ctx_consistent_cleanup:
  assumes "ctx_consistent w"
  shows "ctx_consistent (pch_thermal_cleanup d w)"
  using assms
  by (auto simp add: ctx_consistent_def cleanup_ctx cleanup_regions split: if_splits)

lemma ctx_consistent_startup:
  assumes "ctx_consistent w" and "pch_thermal_startup E w = Inr (status, w')"
  shows "ctx_consistent w'"
proof (cases "status = NO_ERROR")
  case True
  with assms(2) have ok: "pch_thermal_startup E w = Inr (NO_ERROR, w')" by simp
  note up = startup_succeeded [OF ok]
  from assms(1) up(3) have "vmm_regions w = []"
    by (simp add: ctx_consistent_def)
  with up show ?thesis
    by (simp add: ctx_consistent_def)
next
  case False
  from assms(2) obtain w1 where body: "startup_body E w = Inr (status, w1)"
    and w': "w' = pch_thermal_cleanup True w1"
    using False by (auto simp add: pch_thermal_startup_def split: sum.splits)
  from startup_body_failed [OF body False]
  have sub: "set (vmm_regions w') \<subseteq> set (vmm_regions w)"
    and null: "regs (g_pch_thermal_context w) = NULL"
    by (simp_all add: w')
  from assms(1) null have "vmm_regions w = []"
    by (simp add: ctx_consistent_def)
  with sub have "vmm_regions w' = []" by simp
  then show ?thesis
    by (simp add: ctx_consistent_def w' cleanup_ctx)
qed

lemma reachable_consistent: "reachable w \<Longrightarrow> ctx_consistent w"
proof (induction rule: reachable.induct)
  case (boot w)
  then show ?case by (simp add: ctx_consistent_def initial_context_def)
next
  case (probe w d)
  then show ?case by (auto simp add: ctx_consistent_def pch_thermal_probe_def Let_def)
next
  case (framework w p)
  then show ?case by (simp add: ctx_consistent_def)
next
  case (startup w E status w')
  then show ?case by (simp add: ctx_consistent_startup)
next
  case (shutdown w w')
  then show ?case
    by (auto simp add: pch_thermal_shutdown_def ctx_consistent_cleanup split: if_splits)
next
  case (release w c w')
  then show ?case
    by (auto simp add: pch_thermal_release_def ctx_consistent_def split: if_splits)
qed

text \<open>
  C4, as amended. In every state between operations, \<open>regs\<close> is not null exactly when
  the register window is mapped and the sensor-enable bit is set; a non-null \<open>regs\<close> is
  the address of the one live region, and with a null \<open>regs\<close> nothing is mapped.
\<close>

theorem I1_between_operations:
  assumes "reachable w"
  shows "(regs (g_pch_thermal_context w) \<noteq> NULL) = (window_mapped w \<and> sensor_enabled (mmio w)) \<and>
         (regs (g_pch_thermal_context w) \<noteq> NULL \<longrightarrow>
            vmm_regions w = [(aspace (g_pch_thermal_context w), regs (g_pch_thermal_context w))]) \<and>
         (regs (g_pch_thermal_context w) = NULL \<longrightarrow> \<not> window_mapped w)"
  using reachable_consistent [OF assms]
  by (auto simp add: ctx_consistent_def window_mapped_def split: if_splits)

lemma reachable_claimed: "reachable claimed_world"
proof -
  have "reachable fresh_world"
    by (rule reachable.boot) (simp_all add: fresh_world_def)
  then have "reachable (snd (pch_thermal_probe sample_device fresh_world))"
    by (rule reachable.probe)
  then have "reachable ((snd (pch_thermal_probe sample_device fresh_world))
      \<lparr>pci := sample_device\<lparr>driver_ctx := Some G_PCH_THERMAL_CONTEXT\<rparr>\<rparr>)"
    by (rule reachable.framework)
  then show ?thesis by (simp only: claimed_world_eq)
qed

lemma reachable_started: "reachable started_world"
  using reachable_claimed startup_sample by (rule reachable.startup)

lemma reachable_unwound: "reachable unwound_world"
  using reachable_claimed startup_mapping_fails by (rule reachable.startup)

theorem I1_between_operations_witness:
  "reachable started_world \<and>
   regs (g_pch_thermal_context started_world) \<noteq> NULL \<and>
   window_mapped started_world \<and> sensor_enabled (mmio started_world) \<and>
   vmm_regions started_world = [(0x1000, 0x200000)] \<and>
   reachable unwound_world \<and>
   regs (g_pch_thermal_context unwound_world) = NULL \<and> \<not> window_mapped unwound_world"
proof -
  have a: "regs (g_pch_thermal_context started_world) \<noteq> NULL"
    and b: "aspace (g_pch_thermal_context started_world) = 0x1000"
    and c: "regs (g_pch_thermal_context started_world) = 0x200000"
    by (simp_all add: started_world_def)
  have d: "regs (g_pch_thermal_context unwound_world) = NULL"
    by (simp add: unwound_world_def)
  from I1_between_operations [OF reachable_started] a b c
  have "window_mapped started_world \<and> sensor_enabled (mmio started_world) \<and>
        vmm_regions started_world = [(0x1000, 0x200000)]"
    by simp
  moreover from I1_between_operations [OF reachable_unwound] d
  have "\<not> window_mapped unwound_world"
    by simp
  ultimately show ?thesis
    using a d reachable_started reachable_unwound by simp
qed

text \<open>
  Inside startup the invariant does not hold at every point: right after the mapped
  pointer is stored, \<open>regs\<close> is not null and the window is mapped, but no write to
  \<open>tsel\<close> has happened yet and the sensor-enable bit is still clear. The bit is set
  next, through the stored pointer.
\<close>

theorem I1_inside_startup_counterexample:
  "startup_acquire sample_env claimed_world = Inr (NO_ERROR, acquired_world) \<and>
   regs (g_pch_thermal_context acquired_world) \<noteq> NULL \<and>
   window_mapped acquired_world \<and>
   \<not> sensor_enabled (mmio acquired_world) \<and>
   trace acquired_world = [EvSetIrqModeLegacy, EvRegisterIrqHandler,
               EvVmmAllocPhysical 0x1000 0x1000 0xfed08000, EvEnableMmio] \<and>
   pcie_unmask_irq sample_env (startup_configure sample_env acquired_world) =
     (NO_ERROR, started_world) \<and>
   pch_thermal_startup sample_env claimed_world = Inr (NO_ERROR, started_world)"
proof -
  have "regs (g_pch_thermal_context acquired_world) \<noteq> NULL"
    and "window_mapped acquired_world"
    and "\<not> sensor_enabled (mmio acquired_world)"
    and "trace acquired_world = [EvSetIrqModeLegacy, EvRegisterIrqHandler,
               EvVmmAllocPhysical 0x1000 0x1000 0xfed08000, EvEnableMmio]"
    by (simp_all add: acquired_world_def window_mapped_def sensor_enabled_def)
  with acquire_sample configure_sample startup_sample show ?thesis
    by blast
qed

end
